theory Spec2Isabelle
  imports Main
begin

section \<open>Python strings\<close>

text \<open>
  A Python \<open>str\<close> is modelled as a \<open>string\<close>: a list of characters, each character a
  code point below 256. The functions of this section are the \<open>str\<close> methods the
  repository calls, with Python's behaviour on that range.
\<close>

text \<open>\<open>str.lower\<close>, one character: A-Z and the Latin-1 capitals move up by 32.\<close>

definition lower_char :: "char \<Rightarrow> char" where
  "lower_char c =
     (let n = (of_char c :: nat)
      in if (65 \<le> n \<and> n \<le> 90) \<or> (192 \<le> n \<and> n \<le> 222 \<and> n \<noteq> 215)
         then char_of (n + 32) else c)"

definition lower :: "string \<Rightarrow> string" where
  "lower s = map lower_char s"

text \<open>\<open>s.startswith(p)\<close> and \<open>s.endswith(p)\<close> for one string \<open>p\<close>.\<close>

fun startswith :: "string \<Rightarrow> string \<Rightarrow> bool" where
  "startswith s [] = True"
| "startswith [] (p # ps) = False"
| "startswith (c # cs) (p # ps) = (c = p \<and> startswith cs ps)"

definition endswith :: "string \<Rightarrow> string \<Rightarrow> bool" where
  "endswith s p = startswith (rev s) (rev p)"

text \<open>\<open>s.endswith(t)\<close> for a tuple \<open>t\<close> of strings: some member is a suffix.\<close>

definition endswith_any :: "string \<Rightarrow> string list \<Rightarrow> bool" where
  "endswith_any s ps = list_ex (endswith s) ps"

text \<open>\<open>p in s\<close>: \<open>p\<close> occurs in \<open>s\<close> as a contiguous run.\<close>

fun contains :: "string \<Rightarrow> string \<Rightarrow> bool" where
  "contains [] p = (p = [])"
| "contains (c # cs) p = (startswith (c # cs) p \<or> contains cs p)"

text \<open>\<open>sep.join(xs)\<close>.\<close>

fun join :: "string \<Rightarrow> string list \<Rightarrow> string" where
  "join sep [] = []"
| "join sep [x] = x"
| "join sep (x # y # ys) = x @ sep @ join sep (y # ys)"

text \<open>\<open>s.split(sep)\<close> for a separator of one character; the result is never empty.\<close>

fun split :: "string \<Rightarrow> char \<Rightarrow> string list" where
  "split [] sep = [[]]"
| "split (c # cs) sep =
     (if c = sep then [] # split cs sep
      else (case split cs sep of [] \<Rightarrow> [[c]] | w # ws \<Rightarrow> (c # w) # ws))"

text \<open>
  \<open>s.replace(old, new)\<close>: the occurrences of \<open>old\<close> are found from the left and do not
  overlap; with an empty \<open>old\<close>, \<open>new\<close> goes before every character and at the end.
\<close>

function replace :: "string \<Rightarrow> string \<Rightarrow> string \<Rightarrow> string" where
  "replace s old new =
     (if old = [] then new @ concat (map (\<lambda>c. c # new) s)
      else if s = [] then []
      else if startswith s old then new @ replace (drop (length old) s) old new
      else hd s # replace (tl s) old new)"
  by pat_completeness auto
termination
  by (relation "measure (\<lambda>(s, old, new). length s)") auto

declare replace.simps [simp del]

text \<open>
  \<open>str.isspace\<close> on one character, and \<open>s.strip()\<close>: the white space of Python below
  code point 256 is tab, line feed, vertical tab, form feed, carriage return, the four
  separators 28 to 31, the space, next-line (133) and the no-break space (160).
\<close>

definition isspace :: "char \<Rightarrow> bool" where
  "isspace c = ((of_char c :: nat) \<in> {9, 10, 11, 12, 13, 28, 29, 30, 31, 32, 133, 160})"

definition strip :: "string \<Rightarrow> string" where
  "strip s = rev (dropWhile isspace (rev (dropWhile isspace s)))"

text \<open>\<open>str(n)\<close> for a natural number, and the zero padding of \<open>%02d\<close>, \<open>%04d\<close>, \<open>%06d\<close>.\<close>

function str_nat :: "nat \<Rightarrow> string" where
  "str_nat n = (if n < 10 then [char_of (48 + n)]
                else str_nat (n div 10) @ [char_of (48 + n mod 10)])"
  by pat_completeness auto
termination
  by (relation "measure (\<lambda>n. n)") auto

declare str_nat.simps [simp del]

definition zfill :: "nat \<Rightarrow> string \<Rightarrow> string" where
  "zfill w s = replicate (w - length s) (CHR ''0'') @ s"

abbreviation nl :: char where
  "nl \<equiv> CHR 0x0A"

section \<open>Errors and results\<close>

text \<open>
  The exceptions that can leave the modelled code. A function that can raise returns
  \<open>error + 'a\<close>, with \<open>Inl\<close> the exception.
\<close>

datatype error =
    RepositoryNotFoundError
  | KeyError string
  | IndexError
  | ValueError

definition and_then :: "error + 'a \<Rightarrow> ('a \<Rightarrow> error + 'b) \<Rightarrow> error + 'b" where
  "and_then r f = (case r of Inl e \<Rightarrow> Inl e | Inr x \<Rightarrow> f x)"

text \<open>\<open>d[k]\<close> on a dictionary, kept as an association list: a missing key raises.\<close>

definition getitem :: "(string \<times> 'v) list \<Rightarrow> string \<Rightarrow> error + 'v" where
  "getitem d k = (case map_of d k of None \<Rightarrow> Inl (KeyError k) | Some v \<Rightarrow> Inr v)"

section \<open>Dates and times\<close>

text \<open>A naive \<open>datetime\<close>, with the fields of Python's.\<close>

record datetime =
  year :: nat
  month :: nat
  day :: nat
  hour :: nat
  minute :: nat
  second :: nat
  microsecond :: nat

text \<open>\<open>str(dt)\<close> and \<open>dt.isoformat()\<close>: they differ in the separator only.\<close>

definition format_datetime :: "char \<Rightarrow> datetime \<Rightarrow> string" where
  "format_datetime sep dt =
     zfill 4 (str_nat (year dt)) @ ''-'' @ zfill 2 (str_nat (month dt)) @ ''-''
     @ zfill 2 (str_nat (day dt)) @ [sep]
     @ zfill 2 (str_nat (hour dt)) @ '':'' @ zfill 2 (str_nat (minute dt)) @ '':''
     @ zfill 2 (str_nat (second dt))
     @ (if microsecond dt = 0 then [] else ''.'' @ zfill 6 (str_nat (microsecond dt)))"

definition str_datetime :: "datetime \<Rightarrow> string" where
  "str_datetime dt = format_datetime (CHR '' '') dt"

definition isoformat :: "datetime \<Rightarrow> string" where
  "isoformat dt = format_datetime (CHR ''T'') dt"

text \<open>\<open>a <= b\<close> on naive datetimes: the fields compared from the year down.\<close>

fun lex_le :: "nat list \<Rightarrow> nat list \<Rightarrow> bool" where
  "lex_le [] ys = True"
| "lex_le (x # xs) [] = False"
| "lex_le (x # xs) (y # ys) = (x < y \<or> (x = y \<and> lex_le xs ys))"

definition datetime_le :: "datetime \<Rightarrow> datetime \<Rightarrow> bool" where
  "datetime_le a b =
     lex_le [year a, month a, day a, hour a, minute a, second a, microsecond a]
            [year b, month b, day b, hour b, minute b, second b, microsecond b]"

text \<open>
  The start of the day of a clock reading in the words of the specification: local
  midnight, with hours, minutes, seconds and the sub-second part all zero.
\<close>

definition local_midnight :: "datetime \<Rightarrow> datetime" where
  "local_midnight dt = dt\<lparr>hour := 0, minute := 0, second := 0, microsecond := 0\<rparr>"

text \<open>
  The library functions whose results depend on the platform, the time zone or the
  library version are parameters of the model:
  \<open>str(dt.timestamp())\<close>, \<open>datetime.fromisoformat\<close>, \<open>json.dumps\<close> and
  \<open>json.loads\<close> (followed by the validation of the result as a list of strings).
\<close>

record pylib =
  str_timestamp :: "datetime \<Rightarrow> string"
  fromisoformat :: "string \<Rightarrow> error + datetime"
  json_dumps :: "string list \<Rightarrow> string"
  json_loads :: "string \<Rightarrow> error + string list"

section \<open>The commit, as the Change Extractor reads it\<close>

text \<open>
  The fields of a GitPython commit that the repository reads:
  \<open>commit.message\<close>, \<open>commit.hexsha\<close>, \<open>str(commit.author)\<close>,
  \<open>datetime.fromtimestamp(commit.committed_date)\<close>,
  \<open>[diff.a_path for diff in commit.diff()]\<close> and the two totals of \<open>commit.stats\<close>.
\<close>

record commit =
  message :: string
  hexsha :: string
  author :: string
  committed_date :: datetime
  diff_paths :: "string list"
  insertions :: nat
  deletions :: nat

section \<open>The Categorizer\<close>

text \<open>\<open>ProgressTracker._categorize_commit\<close>: the branches in the order of the source.\<close>

definition categorize_commit :: "'a commit_scheme \<Rightarrow> string" where
  "categorize_commit c =
     (let msg = lower (message c);
          files = diff_paths c
      in if list_ex (\<lambda>f. endswith_any f [''.test.ts'', ''.spec.ts'', ''test.py'']) files
           then ''testing''
         else if list_ex (\<lambda>f. endswith_any f [''.css'', ''.scss'', ''.html'']) files
           then ''ui''
         else if contains msg ''fix'' \<or> contains msg ''bug''
           then ''bugfix''
         else if contains msg ''feature''
           then ''feature''
         else if contains msg ''refactor''
           then ''refactor''
         else ''other'')"

text \<open>
  All spellings of a word in upper and lower case letters: the messages "containing the
  word in any letter case" are those containing one of them.
\<close>

definition upper_char :: "char \<Rightarrow> char" where
  "upper_char c =
     (let n = (of_char c :: nat)
      in if 97 \<le> n \<and> n \<le> 122 then char_of (n - 32) else c)"

fun case_variants :: "string \<Rightarrow> string list" where
  "case_variants [] = [[]]"
| "case_variants (c # cs) =
     concat (map (\<lambda>v. [lower_char c # v, upper_char c # v]) (case_variants cs))"

section \<open>The data model\<close>

text \<open>
  The three models of \<open>models.py\<close>. The fields \<open>id\<close>, \<open>description\<close>, \<open>category\<close>
  and \<open>metadata\<close> of \<open>CodeChange\<close>, \<open>id\<close> of \<open>ProgressEntry\<close> and \<open>tags\<close> of
  \<open>SearchQuery\<close> carry a prefix, since field names are global here. A dictionary of
  strings is an association list. The metadata of a change is declared
  \<open>Dict[str, str]\<close>: the two line counts are stored as their decimal strings.
\<close>

record CodeChange =
  change_id :: string
  timestamp :: datetime
  files_changed :: "string list"
  change_description :: string
  change_category :: string
  commit_hash :: "string option"
  change_metadata :: "(string \<times> string) list"

record ProgressEntry =
  entry_id :: string
  date :: datetime
  title :: string
  description :: string
  changes :: "CodeChange list"
  category :: string
  tags :: "string list"
  impact_level :: string

record SearchQuery =
  query :: string
  categories :: "string list option"
  date_range :: "(datetime \<times> datetime) option"
  query_tags :: "string list option"

section \<open>The Change Extractor\<close>

text \<open>
  The repository handle is what the tracker asks of it: \<open>repo.iter_commits(since=...)\<close>,
  the commits it yields in order.
\<close>

record Repo =
  iter_commits :: "datetime \<Rightarrow> commit list"

record ProgressTracker =
  repo :: Repo

text \<open>
  Modelled from the spec: the version-control collaborator's \<open>open(path) -> RepoHandle\<close>,
  which fails with \<open>RepositoryNotFoundError\<close> if the path is not a valid repository. The
  constructor \<open>Repo\<close> of the git library is not among the sources. The file system is the
  map from the paths that are valid repositories to their handles.
\<close>

definition Repo_open :: "(string \<rightharpoonup> Repo) \<Rightarrow> string \<Rightarrow> error + Repo" where
  "Repo_open fs path =
     (case fs path of None \<Rightarrow> Inl RepositoryNotFoundError | Some r \<Rightarrow> Inr r)"

text \<open>\<open>ProgressTracker.__init__\<close>: no handler, the failure of \<open>Repo\<close> leaves as it is.\<close>

definition ProgressTracker_init :: "(string \<rightharpoonup> Repo) \<Rightarrow> string \<Rightarrow> error + ProgressTracker" where
  "ProgressTracker_init fs repo_path =
     and_then (Repo_open fs repo_path) (\<lambda>r. Inr \<lparr>repo = r\<rparr>)"

text \<open>
  Modelled from the spec: \<open>iterCommits(handle, since)\<close>, the commits at or after
  \<open>since\<close> in the order of the history (newest first). It gives the concrete
  repositories of the examples; the functions below take any handle.
\<close>

definition commits_since :: "commit list \<Rightarrow> datetime \<Rightarrow> commit list" where
  "commits_since history since = filter (\<lambda>c. datetime_le since (committed_date c)) history"

text \<open>
  \<open>ProgressTracker.get_recent_changes\<close>: the loop appends one change for each commit,
  numbered by the length of the list so far.
\<close>

fun get_recent_changes_loop :: "CodeChange list \<Rightarrow> commit list \<Rightarrow> CodeChange list" where
  "get_recent_changes_loop chs [] = chs"
| "get_recent_changes_loop chs (c # cs) =
     get_recent_changes_loop
       (chs @
         [\<lparr>change_id = str_nat (length chs),
           timestamp = committed_date c,
           files_changed = diff_paths c,
           change_description = message c,
           change_category = categorize_commit c,
           commit_hash = Some (hexsha c),
           change_metadata =
             [(''author'', author c),
              (''lines_added'', str_nat (insertions c)),
              (''lines_deleted'', str_nat (deletions c))]\<rparr>])
       cs"

definition get_recent_changes :: "ProgressTracker \<Rightarrow> datetime \<Rightarrow> CodeChange list" where
  "get_recent_changes self since =
     get_recent_changes_loop [] (iter_commits (repo self) since)"

section \<open>The Progress Assembler\<close>

text \<open>
  \<open>ProgressTracker.create_progress_entry\<close>. The call reads the clock three times:
  \<open>now k\<close> is the reading of the \<open>k\<close>-th \<open>datetime.now()\<close>. An omitted \<open>tags\<close> or
  \<open>impact_level\<close> is \<open>None\<close>; \<open>tags or []\<close> also turns the empty list into \<open>[]\<close>.
\<close>

definition create_progress_entry ::
  "pylib \<Rightarrow> ProgressTracker \<Rightarrow> (nat \<Rightarrow> datetime) \<Rightarrow> string \<Rightarrow> string \<Rightarrow> string
     \<Rightarrow> string list option \<Rightarrow> string option \<Rightarrow> ProgressEntry" where
  "create_progress_entry L self now title' description' category' tags' impact_level' =
     (let recent_changes = get_recent_changes self ((now 0)\<lparr>hour := 0, minute := 0\<rparr>)
      in \<lparr>entry_id = str_timestamp L (now 1),
          date = now 2,
          title = title',
          description = description',
          changes = recent_changes,
          category = category',
          tags = (case tags' of None \<Rightarrow> [] | Some ts \<Rightarrow> ts),
          impact_level = (case impact_level' of None \<Rightarrow> ''minor'' | Some s \<Rightarrow> s)\<rparr>)"

section \<open>The storage and the Search Facade\<close>

text \<open>
  A stored document: the text and its metadata. A filter is the dictionary that
  \<open>search\<close> builds: each key with the list of its \<open>$in\<close> condition.
\<close>

record Document =
  page_content :: string
  metadata :: "(string \<times> string) list"

type_synonym filter_dict = "(string \<times> string list) list"

text \<open>
  Modelled from the spec: the embedding and vector-store collaborator, which is not among
  the sources. \<open>upsert(collectionName, text, metadata)\<close> adds one document to the
  collection; \<open>query(collectionName, text, filter, limit)\<close> gives at most \<open>limit\<close>
  documents with their scores, in the collaborator's own ranking, each of them matching
  the filter: a key with a list is match-any (the stored value is one of the list), and an
  absent filter imposes no restriction. The ranking is a parameter of the store.
\<close>

record 's vector_store =
  documents :: "Document list"
  rank :: "string \<Rightarrow> Document list \<Rightarrow> (Document \<times> 's) list"

definition add_texts ::
  "'s vector_store \<Rightarrow> string \<Rightarrow> (string \<times> string) list \<Rightarrow> 's vector_store" where
  "add_texts vs text md =
     vs\<lparr>documents := documents vs @ [\<lparr>page_content = text, metadata = md\<rparr>]\<rparr>"

definition matches :: "filter_dict \<Rightarrow> (string \<times> string) list \<Rightarrow> bool" where
  "matches flt md =
     list_all (\<lambda>(k, vals). case map_of md k of None \<Rightarrow> False | Some v \<Rightarrow> v \<in> set vals) flt"

definition similarity_search_with_score ::
  "'s vector_store \<Rightarrow> string \<Rightarrow> nat \<Rightarrow> filter_dict option \<Rightarrow> (Document \<times> 's) list" where
  "similarity_search_with_score vs q k flt =
     take k (filter (\<lambda>(d, s). case flt of None \<Rightarrow> True | Some f \<Rightarrow> matches f (metadata d))
                    (rank vs q (documents vs)))"

text \<open>\<open>ProgressStorage._format_changes\<close>; \<open>metadata.get(key, 0)\<close> prints \<open>0\<close> by default.\<close>

definition dict_get :: "(string \<times> string) list \<Rightarrow> string \<Rightarrow> string \<Rightarrow> string" where
  "dict_get d k dflt = (case map_of d k of None \<Rightarrow> dflt | Some v \<Rightarrow> v)"

definition format_changes :: "CodeChange list \<Rightarrow> string" where
  "format_changes chs =
     join [nl]
       (map (\<lambda>change.
              ''- '' @ change_description change @ [nl]
              @ ''  Files: '' @ join '', '' (files_changed change) @ [nl]
              @ ''  Category: '' @ change_category change @ [nl]
              @ ''  Impact: '' @ dict_get (change_metadata change) ''lines_added'' ''0''
              @ '' additions, ''
              @ dict_get (change_metadata change) ''lines_deleted'' ''0'' @ '' deletions'')
            chs)"

text \<open>
  \<open>ProgressStorage.add_entry\<close>: the text of the entry, line by line as the literal of the
  source has it (each line after the first indented by eight spaces), and the metadata.
\<close>

definition entry_text :: "ProgressEntry \<Rightarrow> string" where
  "entry_text entry =
     [nl]
     @ ''        Title: '' @ title entry @ [nl]
     @ ''        Date: '' @ str_datetime (date entry) @ [nl]
     @ ''        Category: '' @ category entry @ [nl]
     @ ''        Tags: '' @ join '', '' (tags entry) @ [nl]
     @ ''        Impact: '' @ impact_level entry @ [nl]
     @ ''        '' @ [nl]
     @ ''        Description:'' @ [nl]
     @ ''        '' @ description entry @ [nl]
     @ ''        '' @ [nl]
     @ ''        Changes:'' @ [nl]
     @ ''        '' @ format_changes (changes entry) @ [nl]
     @ ''        ''"

definition add_entry :: "pylib \<Rightarrow> 's vector_store \<Rightarrow> ProgressEntry \<Rightarrow> 's vector_store" where
  "add_entry L vs entry =
     (let text = entry_text entry;
          md = [(''id'', entry_id entry),
                (''date'', isoformat (date entry)),
                (''category'', category entry),
                (''tags'', json_dumps L (tags entry)),
                (''impact_level'', impact_level entry)]
      in add_texts vs text md)"

text \<open>
  \<open>ProgressStorage.search\<close>, in three parts: the filter it builds (a \<open>None\<close> or empty
  list of the query is false, and adds no key), the title it reads back from a text, and
  the loop that turns the results into entries. The first exception ends the call.
\<close>

definition search_filter :: "SearchQuery \<Rightarrow> filter_dict option" where
  "search_filter q =
     (let filter_dict =
            (case categories q of
               None \<Rightarrow> [] | Some [] \<Rightarrow> [] | Some (c # cs) \<Rightarrow> [(''category'', c # cs)])
            @ (case query_tags q of
                 None \<Rightarrow> [] | Some [] \<Rightarrow> [] | Some (t # ts) \<Rightarrow> [(''tags'', t # ts)])
      in if filter_dict \<noteq> [] then Some filter_dict else None)"

definition page_title :: "string \<Rightarrow> error + string" where
  "page_title text =
     (let ls = split text nl
      in if length ls < 2 then Inl IndexError
         else Inr (strip (replace (ls ! 1) ''Title: '' [])))"

definition to_entry :: "pylib \<Rightarrow> Document \<Rightarrow> error + ProgressEntry" where
  "to_entry L doc =
     and_then (getitem (metadata doc) ''id'') (\<lambda>i.
     and_then (getitem (metadata doc) ''date'') (\<lambda>d.
     and_then (fromisoformat L d) (\<lambda>dt.
     and_then (page_title (page_content doc)) (\<lambda>t.
     and_then (getitem (metadata doc) ''category'') (\<lambda>c.
     and_then (getitem (metadata doc) ''tags'') (\<lambda>g.
     and_then (json_loads L g) (\<lambda>tg.
     and_then (getitem (metadata doc) ''impact_level'') (\<lambda>il.
       Inr \<lparr>entry_id = i, date = dt, title = t, description = page_content doc,
            changes = [], category = c, tags = tg, impact_level = il\<rparr>))))))))"

fun search_loop ::
  "pylib \<Rightarrow> ProgressEntry list \<Rightarrow> (Document \<times> 's) list \<Rightarrow> error + ProgressEntry list" where
  "search_loop L entries [] = Inr entries"
| "search_loop L entries ((doc, score) # results) =
     and_then (to_entry L doc) (\<lambda>entry. search_loop L (entries @ [entry]) results)"

definition search ::
  "pylib \<Rightarrow> 's vector_store \<Rightarrow> SearchQuery \<Rightarrow> nat option \<Rightarrow> error + ProgressEntry list" where
  "search L vs q limit =
     (let results = similarity_search_with_score vs (query q)
                      (case limit of None \<Rightarrow> 5 | Some k \<Rightarrow> k) (search_filter q)
      in search_loop L [] results)"

section \<open>The synchronisation endpoint\<close>

text \<open>
  \<open>sync_from_git\<close> of \<open>main.py\<close>. The dictionary of the changes by category keeps the
  order in which the categories first occur. The handler reads the clock once; each entry
  it creates reads it three times more, so the entry after the one started at reading
  \<open>n\<close> starts at \<open>n + 3\<close>.
\<close>

fun group_by_category ::
  "(string \<times> CodeChange list) list \<Rightarrow> CodeChange list \<Rightarrow> (string \<times> CodeChange list) list" where
  "group_by_category d [] = d"
| "group_by_category d (change # rest) =
     (let d' = (if change_category change \<notin> set (map fst d)
                then d @ [(change_category change, [])] else d)
      in group_by_category
           (map (\<lambda>(k, v). if k = change_category change then (k, v @ [change]) else (k, v)) d')
           rest)"

fun sync_loop ::
  "pylib \<Rightarrow> ProgressTracker \<Rightarrow> (nat \<Rightarrow> datetime) \<Rightarrow> nat \<Rightarrow> 's vector_store
     \<Rightarrow> ProgressEntry list \<Rightarrow> (string \<times> CodeChange list) list
     \<Rightarrow> ProgressEntry list \<times> 's vector_store" where
  "sync_loop L tracker now n storage entries [] = (entries, storage)"
| "sync_loop L tracker now n storage entries ((category', category_changes) # rest) =
     (if category_changes = [] then sync_loop L tracker now n storage entries rest
      else
        (let summary = ''Daily progress update: '' @ str_nat (length category_changes)
                       @ '' '' @ category' @ '' changes'';
             description' = ''Automated progress entry from git changes:'' @ [nl, nl]
                       @ join [nl] (map (\<lambda>c. ''- '' @ change_description c) category_changes);
             entry = create_progress_entry L tracker (\<lambda>k. now (n + k))
                       summary description' category' (Some [category']) (Some ''minor'')
         in sync_loop L tracker now (n + 3) (add_entry L storage entry)
              (entries @ [entry]) rest))"

definition sync_entries ::
  "pylib \<Rightarrow> ProgressTracker \<Rightarrow> (nat \<Rightarrow> datetime) \<Rightarrow> 's vector_store
     \<Rightarrow> ProgressEntry list \<times> 's vector_store" where
  "sync_entries L tracker now storage =
     (let changes' = get_recent_changes tracker ((now 0)\<lparr>hour := 0, minute := 0\<rparr>);
          changes_by_category = group_by_category [] changes'
      in sync_loop L tracker now 1 storage [] changes_by_category)"

text \<open>The response of the handler: the message and the number of entries created.\<close>

definition sync_from_git ::
  "pylib \<Rightarrow> ProgressTracker \<Rightarrow> (nat \<Rightarrow> datetime) \<Rightarrow> 's vector_store
     \<Rightarrow> (string \<times> nat) \<times> 's vector_store" where
  "sync_from_git L tracker now storage =
     (let changes' = get_recent_changes tracker ((now 0)\<lparr>hour := 0, minute := 0\<rparr>);
          (entries, storage') = sync_entries L tracker now storage
      in ((''Successfully synced '' @ str_nat (length changes') @ '' changes'',
           length entries), storage'))"

section \<open>Concrete inputs\<close>

text \<open>The values at which the theorems below are evaluated.\<close>

definition morning :: datetime where
  "morning = \<lparr>year = 2024, month = 1, day = 15, hour = 10, minute = 30, second = 45,
              microsecond = 123456\<rparr>"

definition just_after_midnight :: datetime where
  "just_after_midnight = \<lparr>year = 2024, month = 1, day = 15, hour = 0, minute = 0,
              second = 10, microsecond = 0\<rparr>"

definition fix_api_commit :: commit where
  "fix_api_commit = \<lparr>message = ''Fix crash on startup'', hexsha = ''a1'', author = ''dev'',
     committed_date = just_after_midnight, diff_paths = [''src/api.py''],
     insertions = 1, deletions = 0\<rparr>"

definition fix_test_commit :: commit where
  "fix_test_commit = \<lparr>message = ''Fix crash on startup'', hexsha = ''b2'', author = ''dev'',
     committed_date = just_after_midnight, diff_paths = [''app.test.ts''],
     insertions = 2, deletions = 1\<rparr>"

text \<open>
  Stand-ins for the library functions: a fixed identifier, \<open>fromisoformat\<close> that reads
  back the one date of the examples, and tags joined and split at commas.
\<close>

definition test_lib :: pylib where
  "test_lib = \<lparr>str_timestamp = (\<lambda>dt. ''1705314645.123456''),
     fromisoformat = (\<lambda>s. if s = isoformat morning then Inr morning else Inl ValueError),
     json_dumps = (\<lambda>ts. join '','' ts),
     json_loads = (\<lambda>s. Inr (if s = [] then [] else split s (CHR '','')))\<rparr>"

text \<open>An empty collection whose ranking keeps the order of the documents.\<close>

definition empty_store :: "int vector_store" where
  "empty_store = \<lparr>documents = [], rank = (\<lambda>q ds. map (\<lambda>d. (d, 0)) ds)\<rparr>"

definition login_entry :: ProgressEntry where
  "login_entry = \<lparr>entry_id = ''1705314645.123456'', date = morning, title = ''Fix login'',
     description = ''Session cookie was dropped'', changes = [], category = ''bugfix'',
     tags = [''auth''], impact_level = ''minor''\<rparr>"

definition casing_entry :: ProgressEntry where
  "casing_entry = \<lparr>entry_id = ''1705314645.123456'', date = morning,
     title = ''Fix Title: casing'', description = ''Headings keep their case'',
     changes = [], category = ''feature'', tags = [], impact_level = ''major''\<rparr>"

text \<open>A repository with two commits of the day, ten seconds after midnight.\<close>

definition two_commit_tracker :: ProgressTracker where
  "two_commit_tracker =
     \<lparr>repo = \<lparr>iter_commits = commits_since [fix_api_commit, fix_test_commit]\<rparr>\<rparr>"

text \<open>
  The collection after the two entries have been added, the documents it then holds, and
  two queries: one with the category filter of the filter law, one with no filter.
\<close>

definition two_entry_store :: "int vector_store" where
  "two_entry_store =
     add_entry test_lib (add_entry test_lib empty_store login_entry) casing_entry"

definition stored_login_document :: Document where
  "stored_login_document = \<lparr>page_content = entry_text login_entry,
     metadata = [(''id'', ''1705314645.123456''), (''date'', isoformat morning),
       (''category'', ''bugfix''), (''tags'', ''auth''), (''impact_level'', ''minor'')]\<rparr>"

definition stored_casing_document :: Document where
  "stored_casing_document = \<lparr>page_content = entry_text casing_entry,
     metadata = [(''id'', ''1705314645.123456''), (''date'', isoformat morning),
       (''category'', ''feature''), (''tags'', []), (''impact_level'', ''major'')]\<rparr>"

definition bugfix_query :: SearchQuery where
  "bugfix_query = \<lparr>query = ''login'', categories = Some [''bugfix''], date_range = None,
     query_tags = None\<rparr>"

definition plain_query :: SearchQuery where
  "plain_query = \<lparr>query = ''fix'', categories = None, date_range = None, query_tags = None\<rparr>"

section \<open>Facts about the string functions\<close>

lemma startswith_map: "startswith s p \<Longrightarrow> startswith (map f s) (map f p)"
  by (induction s p rule: startswith.induct) auto

lemma contains_map: "contains s p \<Longrightarrow> contains (map f s) (map f p)"
proof (induction s)
  case Nil
  then show ?case by simp
next
  case (Cons c cs)
  then show ?case using startswith_map [of "c # cs" p f] by auto
qed

lemma contains_lower: "contains s p \<Longrightarrow> contains (lower s) (lower p)"
  unfolding lower_def by (rule contains_map)

lemma char_eq_char_of: "c = char_of (n::nat) \<longleftrightarrow> take_bit 8 n = of_char c"
  using char_of_eq_iff [of n c] by auto

lemma case_variants_fix: "v \<in> set (case_variants ''fix'') \<Longrightarrow> lower v = ''fix''"
  by (auto simp: lower_def lower_char_def upper_char_def char_of_eq_iff)

lemma case_variants_bug: "v \<in> set (case_variants ''bug'') \<Longrightarrow> lower v = ''bug''"
  by (auto simp: lower_def lower_char_def upper_char_def char_of_eq_iff)

lemma split_line: "sep \<notin> set s \<Longrightarrow> split (s @ sep # rest) sep = s # split rest sep"
  by (induction s) auto

lemma startswith_append: "startswith (p @ s) p"
  by (induction p) auto

lemma replace_at_occurrence:
  "old \<noteq> [] \<Longrightarrow> replace (old @ s) old new = new @ replace s old new"
  by (subst replace.simps) (simp add: startswith_append)

lemma replace_step:
  "old \<noteq> [] \<Longrightarrow> \<not> startswith (c # s) old \<Longrightarrow> replace (c # s) old new = c # replace s old new"
  by (subst replace.simps) simp

lemma replace_absent: "old \<noteq> [] \<Longrightarrow> \<not> contains s old \<Longrightarrow> replace s old new = s"
proof (induction s)
  case Nil
  then show ?case by (subst replace.simps) simp
next
  case (Cons c cs)
  then show ?case by (simp add: replace_step)
qed

lemma dropWhile_head: "t = [] \<or> \<not> P (hd t) \<Longrightarrow> dropWhile P t = t"
  by (cases t) auto

section \<open>The Categorizer: precedence, totality, the bugfix rule\<close>

text \<open>
  C3. Precedence law: when some changed file ends in one of the test-file suffixes the
  source recognises, the category is \<open>testing\<close>, whatever the commit message is.
\<close>

theorem categorize_testing_precedence:
  assumes "\<exists>f \<in> set (diff_paths c). endswith_any f [''.test.ts'', ''.spec.ts'', ''test.py'']"
  shows "categorize_commit c = ''testing''"
  using assms by (simp add: categorize_commit_def list_ex_iff)

theorem categorize_testing_precedence_witness:
  "(\<exists>f \<in> set (diff_paths fix_test_commit).
      endswith_any f [''.test.ts'', ''.spec.ts'', ''test.py''])
   \<and> categorize_commit fix_test_commit
       = ''testing''"
  using categorize_testing_precedence [of fix_test_commit]
  by (simp add: fix_test_commit_def endswith_any_def endswith_def)

text \<open>
  C4. The Categorizer is a total function of the file list and the message (it has no
  failing branch, and as a function it gives the same label on the same inputs), and its
  label is always one of the six of the fixed enumeration.
\<close>

theorem categorize_commit_total:
  "categorize_commit c \<in>
     {''testing'', ''ui'', ''bugfix'', ''feature'', ''refactor'', ''other''}"
  by (simp add: categorize_commit_def Let_def)

text \<open>
  C5. A commit whose message contains \<open>fix\<close> or \<open>bug\<close> in any letter case, and none of
  whose files ends in a test-file suffix or in \<open>.css\<close>, \<open>.scss\<close>, \<open>.html\<close>, is a
  \<open>bugfix\<close>.
\<close>

theorem categorize_bugfix:
  assumes msg: "\<exists>v \<in> set (case_variants ''fix'' @ case_variants ''bug''). contains (message c) v"
    and no_test: "\<forall>f \<in> set (diff_paths c).
          \<not> endswith_any f [''.test.ts'', ''.spec.ts'', ''test.py'']"
    and no_ui: "\<forall>f \<in> set (diff_paths c). \<not> endswith_any f [''.css'', ''.scss'', ''.html'']"
  shows "categorize_commit c = ''bugfix''"
proof -
  from msg obtain v where v: "v \<in> set (case_variants ''fix'') \<or> v \<in> set (case_variants ''bug'')"
    and occ: "contains (message c) v"
    by auto
  from occ have "contains (lower (message c)) (lower v)"
    by (rule contains_lower)
  with v have "contains (lower (message c)) ''fix'' \<or> contains (lower (message c)) ''bug''"
    using case_variants_fix [of v] case_variants_bug [of v] by auto
  with no_test no_ui show ?thesis
    by (simp add: categorize_commit_def list_ex_iff)
qed

theorem categorize_bugfix_witness:
  "(\<exists>v \<in> set (case_variants ''fix'' @ case_variants ''bug'').
      contains (message fix_api_commit) v)
   \<and> categorize_commit fix_api_commit
       = ''bugfix''"
proof -
  let ?c = fix_api_commit
  have occ: "contains (message ?c) ''Fix''"
    by (simp add: fix_api_commit_def)
  have mem: "''Fix'' \<in> set (case_variants ''fix'' @ case_variants ''bug'')"
    by (simp add: lower_char_def upper_char_def char_eq_char_of)
  have h1: "\<exists>v \<in> set (case_variants ''fix'' @ case_variants ''bug''). contains (message ?c) v"
    using occ mem by blast
  have h2: "\<forall>f \<in> set (diff_paths ?c). \<not> endswith_any f [''.test.ts'', ''.spec.ts'', ''test.py'']"
    by (simp add: fix_api_commit_def endswith_any_def endswith_def)
  have h3: "\<forall>f \<in> set (diff_paths ?c). \<not> endswith_any f [''.css'', ''.scss'', ''.html'']"
    by (simp add: fix_api_commit_def endswith_any_def endswith_def)
  show ?thesis
    using h1 categorize_bugfix [OF h1 h2 h3] by blast
qed

section \<open>The title, from the stored text and back\<close>

lemma replace_title_line:
  assumes "\<not> contains t ''Title: ''"
  shows "replace (''        Title: '' @ t) ''Title: '' [] = ''        '' @ t"
proof -
  have "replace (''Title: '' @ t) ''Title: '' [] = t"
    using assms by (simp add: replace_at_occurrence replace_absent del: append.simps)
  then show ?thesis
    by (simp add: replace_step)
qed

lemma strip_indent:
  assumes "t = [] \<or> (\<not> isspace (hd t) \<and> \<not> isspace (last t))"
  shows "strip (''        '' @ t) = t"
proof -
  have sp: "isspace (CHR '' '')"
    by (simp add: isspace_def)
  have "dropWhile isspace (''        '' @ t) = dropWhile isspace t"
    using sp by simp
  also have "\<dots> = t"
    using assms by (intro dropWhile_head) auto
  finally have a: "dropWhile isspace (''        '' @ t) = t" .
  have "dropWhile isspace (rev t) = rev t"
    using assms by (intro dropWhile_head) (auto simp: hd_rev)
  with a show ?thesis
    by (simp add: strip_def)
qed

lemma page_title_text:
  assumes "nl \<notin> set t" and "\<not> contains t ''Title: ''"
    and "t = [] \<or> (\<not> isspace (hd t) \<and> \<not> isspace (last t))"
  shows "page_title (nl # ''        Title: '' @ t @ nl # rest) = Inr t"
proof -
  have "nl \<notin> set (''        Title: '' @ t)"
    using assms(1) by simp
  then have "split ((''        Title: '' @ t) @ nl # rest) nl
      = (''        Title: '' @ t) # split rest nl"
    by (rule split_line)
  then have "split (nl # ''        Title: '' @ t @ nl # rest) nl
      = [] # (''        Title: '' @ t) # split rest nl"
    by simp
  then show ?thesis
    using replace_title_line [OF assms(2)] strip_indent [OF assms(3)]
    by (simp add: page_title_def Let_def del: append.simps)
qed

lemma entry_text_shape:
  "\<exists>rest. entry_text e = nl # ''        Title: '' @ title e @ nl # rest"
  by (simp add: entry_text_def)

lemma page_title_entry_text:
  assumes "nl \<notin> set (title e)"
    and "\<not> contains (title e) ''Title: ''"
    and "title e = [] \<or> (\<not> isspace (hd (title e)) \<and> \<not> isspace (last (title e)))"
  shows "page_title (entry_text e) = Inr (title e)"
proof -
  obtain rest where "entry_text e = nl # ''        Title: '' @ title e @ nl # rest"
    using entry_text_shape by blast
  then show ?thesis
    using page_title_text [OF assms, of rest] by simp
qed


lemma page_title_login: "page_title (entry_text login_entry) = Inr ''Fix login''"
  using page_title_entry_text [of login_entry] by (simp add: login_entry_def isspace_def)

lemma page_title_casing: "page_title (entry_text casing_entry) = Inr ''Fix casing''"
proof -
  have "page_title (nl # ''        Title: Fix Title: casing'' @ nl # rest) = Inr ''Fix casing''"
    for rest
  proof -
    have "split (''        Title: Fix Title: casing'' @ nl # rest) nl
        = ''        Title: Fix Title: casing'' # split rest nl"
      by (rule split_line) simp
    moreover have "replace ''Fix Title: casing'' ''Title: '' [] = ''Fix casing''"
      using replace_at_occurrence [of "''Title: ''" "''casing''" "[]"]
      by (simp add: replace_step replace_absent)
    then have "replace ''        Title: Fix Title: casing'' ''Title: '' [] = ''        Fix casing''"
      using replace_at_occurrence [of "''Title: ''" "''Fix Title: casing''" "[]"]
      by (simp add: replace_step)
    moreover have "strip ''        Fix casing'' = ''Fix casing''"
      by (simp add: strip_def isspace_def)
    ultimately show ?thesis
      by (simp add: page_title_def Let_def)
  qed
  moreover obtain rest where
    "entry_text casing_entry = nl # ''        Title: '' @ title casing_entry @ nl # rest"
    using entry_text_shape by blast
  ultimately show ?thesis
    by (simp add: casing_entry_def)
qed




section \<open>The Search Facade: what every result satisfies\<close>

lemma and_then_Inr: "and_then r f = Inr y \<Longrightarrow> \<exists>x. r = Inr x \<and> f x = Inr y"
  by (cases r) (simp_all add: and_then_def)

lemma to_entry_fields:
  assumes "to_entry L doc = Inr e"
  shows "changes e = []"
    and "getitem (metadata doc) ''category'' = Inr (category e)"
    and "page_title (page_content doc) = Inr (title e)"
  using assms unfolding to_entry_def by (auto dest!: and_then_Inr)

text \<open>A property of every reconstructed entry holds of all the entries the loop returns.\<close>

lemma search_loop_all:
  assumes "search_loop L acc results = Inr es"
    and "\<forall>e \<in> set acc. P e"
    and "\<forall>(doc, score) \<in> set results. \<forall>e. to_entry L doc = Inr e \<longrightarrow> P e"
  shows "\<forall>e \<in> set es. P e"
  using assms
proof (induction results arbitrary: acc)
  case Nil
  then show ?case by simp
next
  case (Cons r results)
  obtain doc score where r: "r = (doc, score)"
    by (cases r)
  from Cons.prems(1) r obtain entry where entry: "to_entry L doc = Inr entry"
    and rest: "search_loop L (acc @ [entry]) results = Inr es"
    by (auto dest!: and_then_Inr)
  have "P entry"
    using Cons.prems(3) r entry by auto
  with Cons.prems(2) have "\<forall>e \<in> set (acc @ [entry]). P e"
    by simp
  moreover have "\<forall>(doc, score) \<in> set results. \<forall>e. to_entry L doc = Inr e \<longrightarrow> P e"
    using Cons.prems(3) by simp
  ultimately show ?case
    using Cons.IH [OF rest] by blast
qed

lemma similarity_results_match:
  assumes "(doc, score) \<in> set (similarity_search_with_score vs q k (Some f))"
  shows "matches f (metadata doc)"
proof -
  from assms have "(doc, score)
      \<in> set (filter (\<lambda>(d, s). matches f (metadata d)) (rank vs q (documents vs)))"
    unfolding similarity_search_with_score_def by (auto dest: in_set_takeD)
  then show ?thesis by simp
qed

lemma search_filter_bugfix:
  assumes "categories q = Some [''bugfix'']"
  shows "\<exists>f. search_filter q = Some ((''category'', [''bugfix'']) # f)"
  using assms by (simp add: search_filter_def)

lemma matches_category:
  assumes "matches ((''category'', vals) # f) md"
  shows "\<exists>v \<in> set vals. getitem md ''category'' = Inr v"
  using assms by (auto simp: matches_def getitem_def split: option.splits)

text \<open>The example collection, evaluated.\<close>

lemma two_entry_store_documents:
  "documents two_entry_store = [stored_login_document, stored_casing_document]"
  by (simp add: two_entry_store_def add_entry_def add_texts_def empty_store_def login_entry_def
      casing_entry_def test_lib_def stored_login_document_def stored_casing_document_def Let_def)

lemma two_entry_store_rank: "rank two_entry_store q ds = map (\<lambda>d. (d, 0)) ds"
  by (simp add: two_entry_store_def add_entry_def add_texts_def empty_store_def Let_def)

lemma bugfix_results:
  "similarity_search_with_score two_entry_store (query bugfix_query) 5 (search_filter bugfix_query)
     = [(stored_login_document, 0)]"
  by (simp add: similarity_search_with_score_def two_entry_store_documents two_entry_store_rank
      search_filter_def bugfix_query_def matches_def stored_login_document_def
      stored_casing_document_def)

lemma plain_results:
  "similarity_search_with_score two_entry_store (query plain_query) 5 (search_filter plain_query)
     = [(stored_login_document, 0), (stored_casing_document, 0)]"
  by (simp add: similarity_search_with_score_def two_entry_store_documents two_entry_store_rank
      search_filter_def plain_query_def)

lemma to_entry_login:
  "to_entry test_lib stored_login_document
     = Inr (login_entry\<lparr>description := entry_text login_entry\<rparr>)"
  by (simp add: to_entry_def and_then_def getitem_def stored_login_document_def page_title_login
      test_lib_def) (simp add: login_entry_def)

lemma to_entry_casing:
  "to_entry test_lib stored_casing_document
     = Inr (casing_entry\<lparr>title := ''Fix casing'', description := entry_text casing_entry\<rparr>)"
  by (simp add: to_entry_def and_then_def getitem_def stored_casing_document_def page_title_casing
      test_lib_def) (simp add: casing_entry_def)

lemma search_bugfix:
  "search test_lib two_entry_store bugfix_query None
     = Inr [login_entry\<lparr>description := entry_text login_entry\<rparr>]"
  by (simp add: search_def bugfix_results to_entry_login and_then_def)

lemma search_plain:
  "search test_lib two_entry_store plain_query None
     = Inr [login_entry\<lparr>description := entry_text login_entry\<rparr>,
            casing_entry\<lparr>title := ''Fix casing'', description := entry_text casing_entry\<rparr>]"
  by (simp add: search_def plain_results to_entry_login to_entry_casing and_then_def)

text \<open>
  C6. Filter law: when a search with \<open>categories = ["bugfix"]\<close> returns, every entry of
  the result has the category \<open>bugfix\<close>, which is the category stored in the metadata of
  its document. The filter that \<open>search\<close> builds carries the key \<open>category\<close> with that
  list, and the store returns only documents matching it.
\<close>

theorem search_category_filter:
  assumes cats: "categories q = Some [''bugfix'']"
    and ok: "search L vs q limit = Inr es"
  shows "\<forall>e \<in> set es. category e = ''bugfix''"
proof -
  from cats obtain f where f: "search_filter q = Some ((''category'', [''bugfix'']) # f)"
    using search_filter_bugfix by blast
  let ?results = "similarity_search_with_score vs (query q)
      (case limit of None \<Rightarrow> 5 | Some k \<Rightarrow> k) (Some ((''category'', [''bugfix'']) # f))"
  have loop: "search_loop L [] ?results = Inr es"
    using ok f by (simp add: search_def)
  have "\<forall>(doc, score) \<in> set ?results. \<forall>e. to_entry L doc = Inr e \<longrightarrow> category e = ''bugfix''"
  proof (clarify)
    fix doc score e
    assume r: "(doc, score) \<in> set ?results" and e: "to_entry L doc = Inr e"
    from r have "matches ((''category'', [''bugfix'']) # f) (metadata doc)"
      by (rule similarity_results_match)
    then have "getitem (metadata doc) ''category'' = Inr ''bugfix''"
      using matches_category by fastforce
    with to_entry_fields(2) [OF e] show "category e = ''bugfix''"
      by simp
  qed
  then show ?thesis
    using search_loop_all [OF loop, of "\<lambda>e. category e = ''bugfix''"] by simp
qed

theorem search_category_filter_witness:
  "categories bugfix_query = Some [''bugfix'']
   \<and> search test_lib two_entry_store bugfix_query None
       = Inr [login_entry\<lparr>description := entry_text login_entry\<rparr>]
   \<and> category (login_entry\<lparr>description := entry_text login_entry\<rparr>) = ''bugfix''"
proof -
  have h: "categories bugfix_query = Some [''bugfix'']"
    by (simp add: bugfix_query_def)
  show ?thesis
    using h search_bugfix search_category_filter [OF h search_bugfix] by simp
qed

text \<open>
  C8. Every entry that \<open>search\<close> returns has an empty list of changes, whatever the
  query and the collection are.
\<close>

theorem search_changes_empty:
  assumes "search L vs q limit = Inr es"
  shows "\<forall>e \<in> set es. changes e = []"
proof -
  let ?results = "similarity_search_with_score vs (query q)
      (case limit of None \<Rightarrow> 5 | Some k \<Rightarrow> k) (search_filter q)"
  have loop: "search_loop L [] ?results = Inr es"
    using assms by (simp add: search_def)
  have "\<forall>(doc, score) \<in> set ?results. \<forall>e. to_entry L doc = Inr e \<longrightarrow> changes e = []"
    using to_entry_fields(1) by blast
  then show ?thesis
    using search_loop_all [OF loop, of "\<lambda>e. changes e = []"] by simp
qed

theorem search_changes_empty_witness:
  "search test_lib two_entry_store plain_query None
     = Inr [login_entry\<lparr>description := entry_text login_entry\<rparr>,
            casing_entry\<lparr>title := ''Fix casing'', description := entry_text casing_entry\<rparr>]
   \<and> changes (login_entry\<lparr>description := entry_text login_entry\<rparr>) = []
   \<and> changes (casing_entry\<lparr>title := ''Fix casing'', description := entry_text casing_entry\<rparr>)
       = []"
  using search_plain search_changes_empty [OF search_plain] by simp

section \<open>The Change Extractor and the Progress Assembler\<close>

text \<open>
  C7. Constructing the tracker over a path that is not a valid repository fails with
  \<open>RepositoryNotFoundError\<close>: the constructor has no handler of its own, so the failure
  of opening the repository is the failure of the constructor.
\<close>

theorem tracker_init_not_found:
  assumes "fs path = None"
  shows "ProgressTracker_init fs path = Inl RepositoryNotFoundError"
  using assms by (simp add: ProgressTracker_init_def Repo_open_def and_then_def)

theorem tracker_init_not_found_witness:
  "ProgressTracker_init Map.empty ''/tmp/not-a-repo'' = Inl RepositoryNotFoundError"
  using tracker_init_not_found [of Map.empty "''/tmp/not-a-repo''"] by simp

text \<open>
  C9. With \<open>tags\<close> omitted the entry has no tags; with \<open>impact_level\<close> omitted it is
  \<open>minor\<close>; an \<open>impact_level\<close> given by the caller is kept as it is, whatever string it
  is, and so are the tags given. The function has no failing branch.
\<close>

theorem create_progress_entry_parameters:
  "tags (create_progress_entry L tr now t d c None i) = []
   \<and> impact_level (create_progress_entry L tr now t d c g None) = ''minor''
   \<and> impact_level (create_progress_entry L tr now t d c g (Some s)) = s
   \<and> tags (create_progress_entry L tr now t d c (Some ts) i) = ts"
  by (simp add: create_progress_entry_def Let_def)

lemma create_progress_entry_changes_eq:
  "changes (create_progress_entry L tr now t d c g i)
     = get_recent_changes tr ((now 0)\<lparr>hour := 0, minute := 0\<rparr>)"
  by (simp add: create_progress_entry_def Let_def)

text \<open>
  The loop of the synchronisation: the entry at position \<open>k\<close> is created at the clock
  reading \<open>1 + 3 * k\<close>, and its changes are the whole extraction made then.
\<close>

lemma sync_loop_changes:
  assumes "sync_loop L tr now n vs acc items = (es, vs')"
    and "n = 1 + 3 * length acc"
    and "\<forall>k < length acc. changes (acc ! k)
           = get_recent_changes tr ((now (1 + 3 * k))\<lparr>hour := 0, minute := 0\<rparr>)"
  shows "\<forall>k < length es. changes (es ! k)
           = get_recent_changes tr ((now (1 + 3 * k))\<lparr>hour := 0, minute := 0\<rparr>)"
  using assms
proof (induction items arbitrary: n vs acc)
  case Nil
  then show ?case by simp
next
  case (Cons item items)
  obtain cat chs where item: "item = (cat, chs)"
    by (cases item)
  show ?case
  proof (cases "chs = []")
    case True
    with Cons.prems(1) item have "sync_loop L tr now n vs acc items = (es, vs')"
      by simp
    then show ?thesis
      using Cons.IH Cons.prems(2,3) by blast
  next
    case False
    define entry where "entry = create_progress_entry L tr (\<lambda>k. now (n + k))
        (''Daily progress update: '' @ str_nat (length chs) @ '' '' @ cat @ '' changes'')
        (''Automated progress entry from git changes:'' @ [nl, nl]
           @ join [nl] (map (\<lambda>c. ''- '' @ change_description c) chs))
        cat (Some [cat]) (Some ''minor'')"
    from Cons.prems(1) item False
    have loop: "sync_loop L tr now (n + 3) (add_entry L vs entry) (acc @ [entry]) items = (es, vs')"
      by (simp add: entry_def Let_def)
    have n3: "n + 3 = 1 + 3 * length (acc @ [entry])"
      using Cons.prems(2) by simp
    have new: "changes entry = get_recent_changes tr ((now n)\<lparr>hour := 0, minute := 0\<rparr>)"
      by (simp add: entry_def create_progress_entry_changes_eq)
    have "\<forall>k < length (acc @ [entry]). changes ((acc @ [entry]) ! k)
           = get_recent_changes tr ((now (1 + 3 * k))\<lparr>hour := 0, minute := 0\<rparr>)"
      using Cons.prems(2,3) new by (auto simp: nth_append less_Suc_eq)
    then show ?thesis
      using Cons.IH [OF loop n3] by blast
  qed
qed

text \<open>The example repository, evaluated.\<close>

lemma categorize_fix_api: "categorize_commit fix_api_commit = ''bugfix''"
  by (simp add: categorize_commit_def fix_api_commit_def endswith_any_def endswith_def
      lower_def lower_char_def char_of_eq_iff)

lemma categorize_fix_test: "categorize_commit fix_test_commit = ''testing''"
  by (simp add: categorize_commit_def fix_test_commit_def endswith_any_def endswith_def)

lemma commits_after_midnight:
  "iter_commits (repo two_commit_tracker) (just_after_midnight\<lparr>hour := 0, minute := 0\<rparr>)
     = [fix_api_commit, fix_test_commit]"
  by (simp add: two_commit_tracker_def commits_since_def datetime_le_def just_after_midnight_def
      fix_api_commit_def fix_test_commit_def)

lemma commits_local_midnight:
  "iter_commits (repo two_commit_tracker) (local_midnight morning)
     = [fix_api_commit, fix_test_commit]"
  by (simp add: two_commit_tracker_def commits_since_def datetime_le_def just_after_midnight_def
      fix_api_commit_def fix_test_commit_def local_midnight_def morning_def)

lemma commits_morning:
  "iter_commits (repo two_commit_tracker) (morning\<lparr>hour := 0, minute := 0\<rparr>) = []"
  by (simp add: two_commit_tracker_def commits_since_def datetime_le_def just_after_midnight_def
      fix_api_commit_def fix_test_commit_def morning_def)

lemma changes_after_midnight:
  "map change_category
     (get_recent_changes two_commit_tracker (just_after_midnight\<lparr>hour := 0, minute := 0\<rparr>))
     = [''bugfix'', ''testing'']"
  by (simp add: get_recent_changes_def commits_after_midnight categorize_fix_api
      categorize_fix_test)

lemma group_two:
  assumes "map change_category chs = [''bugfix'', ''testing'']"
  shows "group_by_category [] chs = [(''bugfix'', [chs ! 0]), (''testing'', [chs ! 1])]"
proof -
  from assms obtain a b where "chs = [a, b]" "change_category a = ''bugfix''"
    "change_category b = ''testing''"
    by (cases chs; cases "tl chs") auto
  then show ?thesis by (simp add: Let_def)
qed

lemma sync_two_categories:
  "map category
     (fst (sync_entries test_lib two_commit_tracker (\<lambda>k. just_after_midnight) empty_store))
     = [''bugfix'', ''testing'']"
  by (simp add: sync_entries_def Let_def group_two [OF changes_after_midnight]
      create_progress_entry_def)

text \<open>
  C1. At a call made at 10:30:45.123456 the extractor is asked for the changes since
  00:00:45.123456 of that day, not since midnight: \<open>replace(hour=0, minute=0)\<close> leaves
  the seconds and the microseconds of the clock reading. A commit of ten seconds past
  midnight is then missing from the entry, and present in the extraction since midnight.
\<close>

theorem since_is_not_midnight:
  "(morning\<lparr>hour := 0, minute := 0\<rparr>) \<noteq> local_midnight morning
   \<and> second (morning\<lparr>hour := 0, minute := 0\<rparr>) = 45
   \<and> microsecond (morning\<lparr>hour := 0, minute := 0\<rparr>) = 123456
   \<and> changes (create_progress_entry test_lib two_commit_tracker (\<lambda>k. morning)
        ''Fix login'' ''Session cookie was dropped'' ''bugfix'' None None) = []
   \<and> length (get_recent_changes two_commit_tracker (local_midnight morning)) = 2"
  by (simp add: create_progress_entry_def get_recent_changes_def commits_morning
      commits_local_midnight) (simp add: morning_def local_midnight_def)

text \<open>
  The changes of the entry that \<open>create_progress_entry\<close> returns are the whole result
  of the extraction the call makes, for the \<open>since\<close> it computes from its first clock
  reading: the title, description, category, tags and impact level do not occur in it.
  Each entry that the synchronisation creates carries the whole extraction made at its
  creation, of every category.
\<close>

lemma entry_changes_full_extraction:
  "changes (create_progress_entry L tr now t d c g i)
     = get_recent_changes tr ((now 0)\<lparr>hour := 0, minute := 0\<rparr>)
   \<and> (\<forall>k < length (fst (sync_entries L tr now vs)).
         changes (fst (sync_entries L tr now vs) ! k)
           = get_recent_changes tr ((now (1 + 3 * k))\<lparr>hour := 0, minute := 0\<rparr>))"
proof -
  obtain es vs' where s: "sync_entries L tr now vs = (es, vs')"
    by (cases "sync_entries L tr now vs")
  then have "sync_loop L tr now 1 vs []
      (group_by_category [] (get_recent_changes tr ((now 0)\<lparr>hour := 0, minute := 0\<rparr>)))
      = (es, vs')"
    by (simp add: sync_entries_def Let_def)
  then have "\<forall>k < length es. changes (es ! k)
           = get_recent_changes tr ((now (1 + 3 * k))\<lparr>hour := 0, minute := 0\<rparr>)"
    by (rule sync_loop_changes) simp_all
  with s show ?thesis
    by (simp add: create_progress_entry_changes_eq)
qed

text \<open>
  In the example synchronisation, ten seconds after midnight, the first entry is the one
  of the category \<open>bugfix\<close>, and its changes are those of both categories.
\<close>

lemma sync_entry_carries_all_categories:
  "0 < length (fst (sync_entries test_lib two_commit_tracker (\<lambda>k. just_after_midnight)
                      empty_store))
   \<and> category (fst (sync_entries test_lib two_commit_tracker (\<lambda>k. just_after_midnight)
                      empty_store) ! 0) = ''bugfix''
   \<and> map change_category
        (changes (fst (sync_entries test_lib two_commit_tracker (\<lambda>k. just_after_midnight)
                         empty_store) ! 0))
       = [''bugfix'', ''testing'']"
proof -
  let ?es = "fst (sync_entries test_lib two_commit_tracker (\<lambda>k. just_after_midnight) empty_store)"
  have len: "length ?es = 2"
    using sync_two_categories [THEN arg_cong, of length] by simp
  then have pos: "0 < length ?es"
    by simp
  have cat: "category (?es ! 0) = ''bugfix''"
    using sync_two_categories [THEN arg_cong, of "\<lambda>xs. xs ! 0"] pos by simp
  have "changes (?es ! 0)
      = get_recent_changes two_commit_tracker (just_after_midnight\<lparr>hour := 0, minute := 0\<rparr>)"
    using entry_changes_full_extraction [of test_lib two_commit_tracker "\<lambda>k. just_after_midnight"
        "[]" "[]" "[]" None None empty_store] pos
    by simp
  with pos cat show ?thesis
    by (simp add: changes_after_midnight)
qed

text \<open>
  When the clock readings fall on a whole minute, the \<open>since\<close> of the code is local
  midnight, and the changes of every entry are the extraction since the start of the day:
  the code differs from that only through the seconds and microseconds it keeps.
\<close>

lemma since_on_the_minute:
  assumes "second dt = 0" and "microsecond dt = 0"
  shows "dt\<lparr>hour := 0, minute := 0\<rparr> = local_midnight dt"
  using assms by (simp add: local_midnight_def)

lemma entry_changes_on_the_minute:
  assumes "\<forall>k. second (now k) = 0 \<and> microsecond (now k) = 0"
  shows "changes (create_progress_entry L tr now t d c g i)
           = get_recent_changes tr (local_midnight (now 0))
         \<and> (\<forall>k < length (fst (sync_entries L tr now vs)).
               changes (fst (sync_entries L tr now vs) ! k)
                 = get_recent_changes tr (local_midnight (now (1 + 3 * k))))"
  using assms entry_changes_full_extraction [of L tr now t d c g i vs]
  by (simp add: since_on_the_minute)

lemma changes_local_midnight:
  "map change_category (get_recent_changes two_commit_tracker (local_midnight morning))
     = [''bugfix'', ''testing'']"
  by (simp add: get_recent_changes_def commits_local_midnight categorize_fix_api
      categorize_fix_test)

text \<open>
  C10. The changes of an entry are meant to be the full extraction for the start of the
  current day, whatever the other arguments are. At a call made at 10:30:45.123456 they
  are not: the entry has no changes, while the extraction since midnight has the two
  commits of ten seconds past midnight, one of each category; and the synchronisation
  run at that reading finds no change and creates no entry at all.
\<close>

theorem entry_changes_miss_early_commits:
  "changes (create_progress_entry test_lib two_commit_tracker (\<lambda>k. morning)
        ''Daily progress update: 1 bugfix changes'' [] ''bugfix'' (Some [''bugfix''])
        (Some ''minor'')) = []
   \<and> map change_category (get_recent_changes two_commit_tracker (local_midnight morning))
       = [''bugfix'', ''testing'']
   \<and> fst (sync_entries test_lib two_commit_tracker (\<lambda>k. morning) empty_store) = []"
  by (simp add: create_progress_entry_def sync_entries_def get_recent_changes_def
      commits_morning) (simp add: changes_local_midnight [unfolded get_recent_changes_def])

end
